theory Spec2Isabelle
  imports Complex_Main
begin

section \<open>Numbers, rectangles and contours\<close>

text \<open>
  JavaScript numbers are modelled as exact reals: every arithmetic expression of the
  source is kept as it is written, without the rounding of IEEE doubles.

  A \<open>rect\<close> is the object shape \<open>{x, y, width, height}\<close> that \<open>cv.boundingRect\<close> returns
  and that the source builds for \<open>headBox\<close>, \<open>bodyBox\<close> and \<open>legsBox\<close>.
\<close>

record rect =
  rect_x :: real
  rect_y :: real
  rect_width :: real
  rect_height :: real

text \<open>The value \<open>parts\<close> that \<open>processDrawingImage\<close> returns (app.js, line 313).\<close>

record parts =
  headBox :: rect
  bodyBox :: rect
  legsBox :: rect
  imgW :: real
  imgH :: real

text \<open>
  OpenCV is an external library. A contour is represented by what the two library
  calls of the source return for it: \<open>cv.contourArea(c, false)\<close> and \<open>cv.boundingRect(c)\<close>.
\<close>

record contour =
  contourArea :: real
  boundingRect :: rect

record image =
  img_width :: real
  img_height :: real

section \<open>The image-processing environment\<close>

text \<open>
  The native objects that \<open>processDrawingImage\<close> of app.js creates: the seven buffers of
  lines 258--276 and, in iteration \<open>i\<close> of the selection loop, the \<open>Mat\<close> that
  \<open>contours.get(i)\<close> returns (line 282). Then the library calls it makes. Every call may
  throw; which ones do is a parameter.
\<close>

datatype buffer =
  Src | Gray | Blur | Binary | Kernel | Contours | Hierarchy | ContourMat nat

datatype call =
  GetImageData | MatFromImageData | CvtColor | GaussianBlur | Threshold | MatOnes
  | MorphologyEx | FindContours | ContourAreaAt nat | BoundingRectCall

datatype exn = Thrown call

record cv_env =
  throws :: "call \<Rightarrow> bool"
  foundContours :: "image \<Rightarrow> contour list"

text \<open>The objects created so far and the objects on which \<open>delete()\<close> was called.\<close>

record cvheap =
  allocated :: "buffer list"
  deleted :: "buffer list"

definition emptyHeap :: cvheap where
  "emptyHeap = \<lparr>allocated = [], deleted = []\<rparr>"

definition alloc :: "buffer \<Rightarrow> cvheap \<Rightarrow> cvheap" where
  "alloc b h = h\<lparr>allocated := allocated h @ [b]\<rparr>"

definition delete :: "buffer \<Rightarrow> cvheap \<Rightarrow> cvheap" where
  "delete b h = h\<lparr>deleted := deleted h @ [b]\<rparr>"

definition leaked :: "cvheap \<Rightarrow> buffer list" where
  "leaked h = filter (\<lambda>b. b \<notin> set (deleted h)) (allocated h)"

record outcome =
  result :: "exn + parts option"
  heap :: cvheap

definition thrown :: "call \<Rightarrow> cvheap \<Rightarrow> outcome" where
  "thrown c h = \<lparr>result = Inl (Thrown c), heap = h\<rparr>"

section \<open>processDrawingImage (app.js, lines 248--321)\<close>

text \<open>
  The selection loop, lines 279--288: \<open>maxArea\<close> starts at 0 and \<open>maxContour\<close> at null;
  iteration \<open>i\<close> obtains the \<open>Mat\<close> of contour \<open>i\<close> by \<open>contours.get(i)\<close>, and the contour
  replaces the current choice when its area is strictly greater. The loop calls
  \<open>delete()\<close> on nothing.
\<close>

fun maxContourLoop ::
  "(call \<Rightarrow> bool) \<Rightarrow> contour list \<Rightarrow> nat \<Rightarrow> real \<Rightarrow> contour option \<Rightarrow> cvheap
     \<Rightarrow> (exn + contour option) \<times> cvheap"
where
  "maxContourLoop thr [] i maxArea maxContour h = (Inr maxContour, h)"
| "maxContourLoop thr (c # cs) i maxArea maxContour h =
     (let h = alloc (ContourMat i) h in
      if thr (ContourAreaAt i) then (Inl (Thrown (ContourAreaAt i)), h)
      else let a = contourArea c in
        if a > maxArea then maxContourLoop thr cs (i + 1) a (Some c) h
        else maxContourLoop thr cs (i + 1) maxArea maxContour h)"

text \<open>The body of \<open>if (maxContour)\<close>, lines 292--313.\<close>

definition boxPartition :: "rect \<Rightarrow> real \<Rightarrow> real \<Rightarrow> parts" where
  "boxPartition r canvasW canvasH =
     \<lparr>headBox = \<lparr>rect_x = rect_x r + rect_width r * 0.25,
                 rect_y = rect_y r,
                 rect_width = rect_width r * 0.5,
                 rect_height = rect_height r * 0.2\<rparr>,
      bodyBox = \<lparr>rect_x = rect_x r + rect_width r * 0.2,
                 rect_y = rect_y r + rect_height r * 0.2,
                 rect_width = rect_width r * 0.6,
                 rect_height = rect_height r * 0.4\<rparr>,
      legsBox = \<lparr>rect_x = rect_x r + rect_width r * 0.2,
                 rect_y = rect_y r + rect_height r * 0.6,
                 rect_width = rect_width r * 0.6,
                 rect_height = rect_height r * 0.4\<rparr>,
      imgW = canvasW, imgH = canvasH\<rparr>"

text \<open>Lines 316--320: the seven \<open>delete()\<close> calls, then \<open>return parts\<close>.\<close>

definition releaseAndReturn :: "parts option \<Rightarrow> cvheap \<Rightarrow> outcome" where
  "releaseAndReturn p h =
     (let h = delete Src h; h = delete Gray h; h = delete Blur h; h = delete Binary h;
          h = delete Kernel h; h = delete Contours h; h = delete Hierarchy h
      in \<lparr>result = Inr p, heap = h\<rparr>)"

definition processDrawingImage :: "cv_env \<Rightarrow> image \<Rightarrow> outcome" where
  "processDrawingImage env imageElement =
     (let canvasW = img_width imageElement; canvasH = img_height imageElement;
          h = emptyHeap in
      if throws env GetImageData then thrown GetImageData h
      else if throws env MatFromImageData then thrown MatFromImageData h
      else let h = alloc Src h; h = alloc Gray h in
      if throws env CvtColor then thrown CvtColor h
      else let h = alloc Blur h in
      if throws env GaussianBlur then thrown GaussianBlur h
      else let h = alloc Binary h in
      if throws env Threshold then thrown Threshold h
      else if throws env MatOnes then thrown MatOnes h
      else let h = alloc Kernel h in
      if throws env MorphologyEx then thrown MorphologyEx h
      else let h = alloc Contours h; h = alloc Hierarchy h in
      if throws env FindContours then thrown FindContours h
      else
        (let (r, h) = maxContourLoop (throws env) (foundContours env imageElement) 0 0 None h in
         case r of
           Inl (Thrown c) \<Rightarrow> thrown c h
         | Inr None \<Rightarrow> releaseAndReturn None h
         | Inr (Some maxContour) \<Rightarrow>
             if throws env BoundingRectCall then thrown BoundingRectCall h
             else releaseAndReturn
                    (Some (boxPartition (boundingRect maxContour) canvasW canvasH)) h))"

section \<open>Scene objects\<close>

text \<open>
  three.js is an external library. Of its objects the model keeps the fields that the
  source reads or writes, with the library's defaults (\<open>Object3D\<close>: visible, position
  0, rotation 0, scale 1, identity matrix, matrixAutoUpdate).
\<close>

record vec3 =
  vx :: real
  vy :: real
  vz :: real

text \<open>The 16 elements of a \<open>Matrix4\<close>, column-major.\<close>

type_synonym mat4 = "real list"

datatype geom = BoxGeometry real real real | RingGeometry real real nat

datatype material =
  MeshStandardMaterial nat real real  \<comment> \<open>color, metalness, roughness\<close>
  | MeshBasicMaterial nat bool real   \<comment> \<open>color, transparent, opacity\<close>

datatype payload = Mesh geom material | Group | HemisphereLight nat nat real

record node3d =
  payload :: payload
  visible :: bool
  position :: vec3
  rotation :: vec3
  scale :: vec3
  matrix :: mat4
  matrixAutoUpdate :: bool

text \<open>
  An object of the scene with the objects added to it by \<open>add\<close>. The meshes of a group
  are referenced only through the group, so they are held by value.
\<close>

record object3d = node3d +
  children :: "node3d list"

definition vec :: "real \<Rightarrow> real \<Rightarrow> real \<Rightarrow> vec3" where
  "vec a b c = \<lparr>vx = a, vy = b, vz = c\<rparr>"

definition identity4 :: mat4 where
  "identity4 = [1, 0, 0, 0,  0, 1, 0, 0,  0, 0, 1, 0,  0, 0, 0, 1]"

definition newNode :: "payload \<Rightarrow> node3d" where
  "newNode p = \<lparr>payload = p, visible = True, position = vec 0 0 0, rotation = vec 0 0 0,
                scale = vec 1 1 1, matrix = identity4, matrixAutoUpdate = True\<rparr>"

definition newObject :: "payload \<Rightarrow> object3d" where
  "newObject p = node3d.extend (newNode p) (object3d.fields [])"

text \<open>The height of a mesh's box geometry, in world units.\<close>

fun boxHeight :: "payload \<Rightarrow> real" where
  "boxHeight (Mesh (BoxGeometry w h d) m) = h"
| "boxHeight _ = 0"

text \<open>
  \<open>Matrix4.fromArray\<close> copies 16 elements; the array is the \<open>matrix\<close> of an
  \<open>XRRigidTransform\<close>, a \<open>Float32Array\<close> of length 16.
  \<open>Vector3.setFromMatrixPosition\<close> reads elements 12, 13 and 14.
\<close>

definition fromArray :: "real list \<Rightarrow> mat4" where
  "fromArray a = take 16 a"

definition setFromMatrixPosition :: "mat4 \<Rightarrow> vec3" where
  "setFromMatrixPosition e = vec (e ! 12) (e ! 13) (e ! 14)"

section \<open>The module state\<close>

text \<open>
  The module-level variables of app.js (\<open>scene\<close>, \<open>reticle\<close>, \<open>model\<close>) hold references.
  Objects live in a store indexed by reference; \<open>sceneChildren\<close> is \<open>scene.children\<close>;
  \<open>model\<close> is \<open>None\<close> while the variable is undefined; \<open>rafQueue\<close> holds the callbacks
  passed to \<open>requestAnimationFrame\<close> and not yet run.
\<close>

datatype callback = Step real nat  \<comment> \<open>the closure \<open>step\<close> of \<open>popIn\<close>: \<open>start\<close>, \<open>mesh\<close>\<close>

record ctx =
  objs :: "nat \<Rightarrow> object3d"
  nextRef :: nat
  sceneChildren :: "nat list"
  reticle :: nat
  model :: "nat option"
  rafQueue :: "callback list"

definition new :: "object3d \<Rightarrow> ctx \<Rightarrow> nat \<times> ctx" where
  "new ob s = (nextRef s, s\<lparr>objs := (objs s)(nextRef s := ob), nextRef := nextRef s + 1\<rparr>)"

definition updObj :: "nat \<Rightarrow> (object3d \<Rightarrow> object3d) \<Rightarrow> ctx \<Rightarrow> ctx" where
  "updObj r f s = s\<lparr>objs := (objs s)(r := f (objs s r))\<rparr>"

text \<open>
  \<open>scene.remove(o)\<close> deletes \<open>o\<close> from the children when it is there; \<open>scene.add(o)\<close>
  detaches \<open>o\<close> from its parent first and pushes it at the end.
\<close>

definition sceneRemove :: "nat \<Rightarrow> ctx \<Rightarrow> ctx" where
  "sceneRemove r s = s\<lparr>sceneChildren := remove1 r (sceneChildren s)\<rparr>"

definition sceneAdd :: "nat \<Rightarrow> ctx \<Rightarrow> ctx" where
  "sceneAdd r s = s\<lparr>sceneChildren := remove1 r (sceneChildren s) @ [r]\<rparr>"

section \<open>replaceWithSkeleton (app.js, lines 326--358)\<close>

text \<open>Lines 327--352: the three meshes, their positions and the group.\<close>

definition skeletonGroup :: "parts \<Rightarrow> object3d" where
  "skeletonGroup p =
     (let scl = 0.001;
          head = newNode (Mesh (BoxGeometry (rect_width (headBox p) * scl)
                                  (rect_height (headBox p) * scl) 0.08)
                               (MeshStandardMaterial 0xffe066 0.05 0.7));
          body = newNode (Mesh (BoxGeometry (rect_width (bodyBox p) * scl)
                                  (rect_height (bodyBox p) * scl) 0.1)
                               (MeshStandardMaterial 0x66d9e8 0.05 0.7));
          legs = newNode (Mesh (BoxGeometry (rect_width (legsBox p) * scl)
                                  (rect_height (legsBox p) * scl) 0.12)
                               (MeshStandardMaterial 0xb197fc 0.05 0.7));
          head = head\<lparr>position := vec 0 ((rect_height (bodyBox p) * scl) / 2
                                         + (rect_height (headBox p) * scl) / 2) 0\<rparr>;
          body = body\<lparr>position := vec 0 0 0\<rparr>;
          legs = legs\<lparr>position := vec 0 (- (rect_height (bodyBox p) * scl) / 2
                                         - (rect_height (legsBox p) * scl) / 2) 0\<rparr>;
          group = newObject Group;
          group = group\<lparr>children := children group @ [head]\<rparr>;
          group = group\<lparr>children := children group @ [body]\<rparr>;
          group = group\<lparr>children := children group @ [legs]\<rparr>
      in group)"

text \<open>Line 354: \<open>if (model) scene.remove(model)\<close>.\<close>

definition removeModel :: "ctx \<Rightarrow> ctx" where
  "removeModel s = (case model s of None \<Rightarrow> s | Some m \<Rightarrow> sceneRemove m s)"

text \<open>Lines 355--357: \<open>model = group; scene.add(model); model.visible = false\<close>.\<close>

definition installModel :: "nat \<Rightarrow> ctx \<Rightarrow> ctx" where
  "installModel g s =
     (let s = s\<lparr>model := Some g\<rparr>;
          s = sceneAdd g s
      in updObj g (\<lambda>ob. ob\<lparr>visible := False\<rparr>) s)"

definition replaceWithSkeleton :: "parts \<Rightarrow> ctx \<Rightarrow> ctx" where
  "replaceWithSkeleton p s =
     (let (g, s) = new (skeletonGroup p) s;
          s = removeModel s
      in installModel g s)"

section \<open>createSkeletonModel (the second source file, lines 206--239)\<close>

definition skeletonGroup2 :: "rect \<Rightarrow> rect \<Rightarrow> rect \<Rightarrow> object3d" where
  "skeletonGroup2 hBox bBox lBox =
     (let scl = 0.001;
          headMesh = newNode (Mesh (BoxGeometry (rect_width hBox * scl) (rect_height hBox * scl) 0.1)
                                   (MeshStandardMaterial 0xffff00 0 1));
          bodyMesh = newNode (Mesh (BoxGeometry (rect_width bBox * scl) (rect_height bBox * scl) 0.1)
                                   (MeshStandardMaterial 0xff00ff 0 1));
          legsMesh = newNode (Mesh (BoxGeometry (rect_width lBox * scl) (rect_height lBox * scl) 0.1)
                                   (MeshStandardMaterial 0x00ffff 0 1));
          headMesh = headMesh\<lparr>position := vec 0 ((rect_height bBox * scl) / 2
                                                 + (rect_height hBox * scl) / 2) 0\<rparr>;
          bodyMesh = bodyMesh\<lparr>position := vec 0 0 0\<rparr>;
          legsMesh = legsMesh\<lparr>position := vec 0 (- (rect_height bBox * scl) / 2
                                                 - (rect_height lBox * scl) / 2) 0\<rparr>;
          group = newObject Group;
          group = group\<lparr>children := children group @ [headMesh]\<rparr>;
          group = group\<lparr>children := children group @ [bodyMesh]\<rparr>;
          group = group\<lparr>children := children group @ [legsMesh]\<rparr>
      in group)"

text \<open>Here the existing model is removed (lines 228--230) before the group is created.\<close>

definition createSkeletonModel :: "rect \<Rightarrow> rect \<Rightarrow> rect \<Rightarrow> real \<Rightarrow> real \<Rightarrow> ctx \<Rightarrow> ctx" where
  "createSkeletonModel hBox bBox lBox w h s =
     (let s = removeModel s;
          (g, s) = new (skeletonGroup2 hBox bBox lBox) s
      in installModel g s)"

section \<open>processDrawingImage of the second source file (lines 121--203)\<close>

text \<open>
  The earlier version of the pipeline: no blur and no closing, so five buffers and the
  \<open>Mat\<close> of each \<open>contours.get(i)\<close> (line 150); the selection loop and the partition are
  the same text as in app.js; the parts are not
  returned but passed to \<open>createSkeletonModel\<close>. It yields the exception or a normal
  return, the buffers, and the state.
\<close>

definition releaseAndReturn2 :: "ctx \<Rightarrow> cvheap \<Rightarrow> (exn + unit) \<times> cvheap \<times> ctx" where
  "releaseAndReturn2 s h =
     (let h = delete Src h; h = delete Gray h; h = delete Binary h;
          h = delete Contours h; h = delete Hierarchy h
      in (Inr (), h, s))"

definition processDrawingImage2 :: "cv_env \<Rightarrow> image \<Rightarrow> ctx \<Rightarrow> (exn + unit) \<times> cvheap \<times> ctx" where
  "processDrawingImage2 env imageElement s =
     (let canvasW = img_width imageElement; canvasH = img_height imageElement;
          h = emptyHeap in
      if throws env GetImageData then (Inl (Thrown GetImageData), h, s)
      else if throws env MatFromImageData then (Inl (Thrown MatFromImageData), h, s)
      else let h = alloc Src h; h = alloc Gray h in
      if throws env CvtColor then (Inl (Thrown CvtColor), h, s)
      else let h = alloc Binary h in
      if throws env Threshold then (Inl (Thrown Threshold), h, s)
      else let h = alloc Contours h; h = alloc Hierarchy h in
      if throws env FindContours then (Inl (Thrown FindContours), h, s)
      else
        (let (r, h) = maxContourLoop (throws env) (foundContours env imageElement) 0 0 None h in
         case r of
           Inl e \<Rightarrow> (Inl e, h, s)
         | Inr None \<Rightarrow> releaseAndReturn2 s h
         | Inr (Some maxContour) \<Rightarrow>
             if throws env BoundingRectCall then (Inl (Thrown BoundingRectCall), h, s)
             else
               (let p = boxPartition (boundingRect maxContour) canvasW canvasH;
                    s = createSkeletonModel (headBox p) (bodyBox p) (legsBox p) canvasW canvasH s
                in releaseAndReturn2 s h)))"

section \<open>initAR (app.js, lines 132--220)\<close>

text \<open>
  \<open>setupScene\<close> is lines 141--164: the scene with the light, the hidden reticle and the
  hidden default box. Then (lines 166--177), when OpenCV is ready, the drawing is
  processed and the box replaced; an exception of \<open>processDrawingImage\<close> is caught
  (line 173) and the box is kept. The negotiation of the XR session (lines 179--187) is
  outside the model; the two callbacks registered afterwards are \<open>animationLoop\<close> and
  \<open>onClick\<close> below.
\<close>

definition emptyCtx :: ctx where
  "emptyCtx = \<lparr>objs = (\<lambda>_. newObject Group), nextRef = 0, sceneChildren = [],
               reticle = 0, model = None, rafQueue = []\<rparr>"

definition setupScene :: ctx where
  "setupScene =
     (let s = emptyCtx;
          (hemi, s) = new ((newObject (HemisphereLight 0xffffff 0xbbbbff 1.0))
                             \<lparr>position := vec 0.5 1 0.25\<rparr>) s;
          s = sceneAdd hemi s;
          (ret, s) = new (newObject (Mesh (RingGeometry 0.08 0.11 32)
                                           (MeshBasicMaterial 0xffffff True 0.85))) s;
          s = s\<lparr>reticle := ret\<rparr>;
          s = updObj ret (\<lambda>ob. ob\<lparr>matrixAutoUpdate := False\<rparr>) s;
          s = updObj ret (\<lambda>ob. ob\<lparr>visible := False\<rparr>) s;
          s = sceneAdd ret s;
          (box, s) = new (newObject (Mesh (BoxGeometry 0.2 0.2 0.2)
                                           (MeshStandardMaterial 0xffffff 0.1 0.6))) s;
          s = s\<lparr>model := Some box\<rparr>;
          s = updObj box (\<lambda>ob. ob\<lparr>visible := False\<rparr>) s;
          s = sceneAdd box s
      in s)"

definition initAR :: "bool \<Rightarrow> cv_env \<Rightarrow> image \<Rightarrow> ctx" where
  "initAR cvReady env uploadedImage =
     (let s = setupScene
      in if cvReady then
           (case result (processDrawingImage env uploadedImage) of
              Inr (Some p) \<Rightarrow> replaceWithSkeleton p s
            | Inr None \<Rightarrow> s
            | Inl e \<Rightarrow> s)
         else s)"

section \<open>The render loop (app.js, lines 190--204)\<close>

text \<open>
  An \<open>XRFrame\<close> is represented by what \<open>frame.getHitTestResults(hitTestSource)\<close>
  returns; a hit-test result by what its \<open>getPose(refSpace)\<close> returns: the pose's
  \<open>transform.matrix\<close>, or \<open>None\<close> for null. \<open>renderer.render\<close> writes none of the
  fields of the model that the source reads.
\<close>

datatype hit = Hit "real list option"

fun getPose :: "hit \<Rightarrow> real list option" where
  "getPose (Hit p) = p"

record xrframe =
  getHitTestResults :: "hit list option"

definition animationLoop :: "xrframe option \<Rightarrow> ctx \<Rightarrow> ctx" where
  "animationLoop frame s =
     (case frame of
        None \<Rightarrow> s
      | Some f \<Rightarrow>
          (case getHitTestResults f of
             None \<Rightarrow> updObj (reticle s) (\<lambda>ob. ob\<lparr>visible := False\<rparr>) s
           | Some [] \<Rightarrow> updObj (reticle s) (\<lambda>ob. ob\<lparr>visible := False\<rparr>) s
           | Some (r0 # rest) \<Rightarrow>
               (case getPose r0 of
                  None \<Rightarrow> s
                | Some m \<Rightarrow>
                    (let s = updObj (reticle s) (\<lambda>ob. ob\<lparr>visible := True\<rparr>) s
                     in updObj (reticle s) (\<lambda>ob. ob\<lparr>matrix := fromArray m\<rparr>) s))))"

section \<open>Placement (app.js, lines 207--243)\<close>

text \<open>
  \<open>popIn\<close>: \<open>start\<close> is \<open>performance.now()\<close>; \<open>requestAnimationFrame(step)\<close> queues the
  closure.
\<close>

definition dur :: real where
  "dur = 220"

definition popIn :: "nat \<Rightarrow> real \<Rightarrow> ctx \<Rightarrow> ctx" where
  "popIn mesh now s = s\<lparr>rafQueue := rafQueue s @ [Step now mesh]\<rparr>"

text \<open>One tick of the animation, called by the browser with the frame's time \<open>t\<close>.\<close>

fun step :: "callback \<Rightarrow> real \<Rightarrow> ctx \<Rightarrow> ctx" where
  "step (Step start mesh) t s =
     (let target_s = 1;
          e = min 1 ((t - start) / dur);
          ease = 1 - (1 - e) ^ 3;
          sc = 0.001 + (target_s - 0.001) * ease;
          s = updObj mesh (\<lambda>ob. ob\<lparr>scale := vec sc sc sc\<rparr>) s
      in if e < 1 then s\<lparr>rafQueue := rafQueue s @ [Step start mesh]\<rparr> else s)"

text \<open>
  The click handler; \<open>rnd\<close> is the value that \<open>Math.random()\<close> returns and \<open>now\<close> the
  value of \<open>performance.now()\<close>.
\<close>

definition onClick :: "real \<Rightarrow> real \<Rightarrow> ctx \<Rightarrow> ctx" where
  "onClick rnd now s =
     (case model s of
        None \<Rightarrow> s
      | Some m \<Rightarrow>
          if visible (objs s (reticle s)) then
            (let s = updObj m (\<lambda>ob. ob\<lparr>visible := True\<rparr>) s;
                 s = updObj m (\<lambda>ob. ob\<lparr>position :=
                        setFromMatrixPosition (matrix (objs s (reticle s)))\<rparr>) s;
                 s = updObj m (\<lambda>ob. ob\<lparr>rotation := (rotation ob)\<lparr>vy := rnd * pi * 2\<rparr>\<rparr>) s;
                 s = updObj m (\<lambda>ob. ob\<lparr>scale := vec 0.001 0.001 0.001\<rparr>) s
             in popIn m now s)
          else s)"

section \<open>A sample session\<close>

text \<open>
  The scenario of the specification: a 400 x 800 image whose silhouette covers the
  rectangle \<open>{x: 50, y: 50, w: 300, h: 700}\<close>. \<open>boxStart\<close> is the state after \<open>initAR\<close>
  when OpenCV is not ready, \<open>rigStart\<close> when it is, and \<open>rigTracked\<close> the state after a
  first frame whose hit test resolves to \<open>samplePose\<close>.
\<close>

definition sampleEnv :: cv_env where
  "sampleEnv = \<lparr>throws = (\<lambda>k. False),
      foundContours = (\<lambda>i. [\<lparr>contourArea = 210000,
         boundingRect = \<lparr>rect_x = 50, rect_y = 50, rect_width = 300, rect_height = 700\<rparr>\<rparr>])\<rparr>"

definition sampleImage :: image where
  "sampleImage = \<lparr>img_width = 400, img_height = 800\<rparr>"

definition samplePose :: "real list" where
  "samplePose = [1, 0, 0, 0,  0, 1, 0, 0,  0, 0, 1, 0,  0.5, 0, -1.5, 1]"

definition boxStart :: ctx where
  "boxStart = initAR False sampleEnv sampleImage"

definition rigStart :: ctx where
  "rigStart = initAR True sampleEnv sampleImage"

definition rigTracked :: ctx where
  "rigTracked = animationLoop (Some \<lparr>getHitTestResults = Some [Hit (Some samplePose)]\<rparr>) rigStart"

section \<open>The selection loop\<close>

text \<open>
  The choice of the loop does not depend on the heap, the loop deletes nothing, and a
  loop that returns has created one \<open>Mat\<close> for each contour. When no call throws, the
  loop returns. What it returns is either the initial choice, when no area exceeds the
  initial \<open>maxArea\<close>, or the first contour of greatest area.
\<close>

lemma loop_fst_heap:
  "fst (maxContourLoop thr cs i m mc h) = fst (maxContourLoop thr cs i m mc h')"
proof (induction cs arbitrary: i m mc h h')
  case Nil
  show ?case by simp
next
  case (Cons c cs)
  show ?case
    using Cons.IH[of "i + 1" "contourArea c" "Some c" "alloc (ContourMat i) h" "alloc (ContourMat i) h'"]
          Cons.IH[of "i + 1" m mc "alloc (ContourMat i) h" "alloc (ContourMat i) h'"]
    by (simp add: Let_def)
qed

lemma loop_deleted:
  "deleted (snd (maxContourLoop thr cs i m mc h)) = deleted h"
  by (induction cs arbitrary: i m mc h) (simp_all add: Let_def alloc_def)

lemma loop_allocated:
  assumes "fst (maxContourLoop thr cs i m mc h) = Inr r"
  shows "allocated (snd (maxContourLoop thr cs i m mc h))
           = allocated h @ map ContourMat [i..<i + length cs]"
  using assms
proof (induction cs arbitrary: i m mc h)
  case Nil
  then show ?case by simp
next
  case (Cons c cs)
  from Cons.prems have nt: "\<not> thr (ContourAreaAt i)" by (auto simp: Let_def split: if_splits)
  have up: "[i..<i + length (c # cs)] = i # [i + 1..<i + 1 + length cs]"
    using upt_conv_Cons[of i "i + length (c # cs)"] by simp
  show ?case
  proof (cases "contourArea c > m")
    case True
    with Cons.prems nt
    have "fst (maxContourLoop thr cs (i + 1) (contourArea c) (Some c) (alloc (ContourMat i) h)) = Inr r"
      by (simp add: Let_def)
    from Cons.IH[OF this] True nt show ?thesis
      unfolding up by (simp add: Let_def alloc_def)
  next
    case False
    with Cons.prems nt
    have "fst (maxContourLoop thr cs (i + 1) m mc (alloc (ContourMat i) h)) = Inr r"
      by (simp add: Let_def)
    from Cons.IH[OF this] False nt show ?thesis
      unfolding up by (simp add: Let_def alloc_def)
  qed
qed

lemma loop_no_throw:
  assumes "\<forall>k. \<not> thr (ContourAreaAt k)"
  shows "\<exists>r. fst (maxContourLoop thr cs i m mc h) = Inr r"
  using assms by (induction cs arbitrary: i m mc h) (auto simp: Let_def)

lemma loop_select:
  assumes "fst (maxContourLoop thr cs i m mc h) = Inr r"
  shows "(r = mc \<and> (\<forall>c\<in>set cs. contourArea c \<le> m)) \<or>
         (\<exists>pre c post. cs = pre @ c # post \<and> r = Some c \<and> m < contourArea c \<and>
            (\<forall>a\<in>set pre. contourArea a < contourArea c) \<and>
            (\<forall>b\<in>set post. contourArea b \<le> contourArea c))"
  using assms
proof (induction cs arbitrary: i m mc h)
  case Nil
  then show ?case by simp
next
  case (Cons c cs)
  from Cons.prems have nt: "\<not> thr (ContourAreaAt i)" by (auto simp: Let_def split: if_splits)
  show ?case
  proof (cases "contourArea c > m")
    case True
    with Cons.prems nt
    have rec: "fst (maxContourLoop thr cs (i + 1) (contourArea c) (Some c) (alloc (ContourMat i) h)) = Inr r"
      by (simp add: Let_def)
    from Cons.IH[OF rec] show ?thesis
    proof
      assume a: "r = Some c \<and> (\<forall>c'\<in>set cs. contourArea c' \<le> contourArea c)"
      have "c # cs = [] @ c # cs \<and> r = Some c \<and> m < contourArea c \<and>
            (\<forall>a\<in>set []. contourArea a < contourArea c) \<and>
            (\<forall>b\<in>set cs. contourArea b \<le> contourArea c)"
        using a True by simp
      then show ?thesis by (intro disjI2 exI)
    next
      assume "\<exists>pre c' post. cs = pre @ c' # post \<and> r = Some c' \<and> contourArea c < contourArea c' \<and>
            (\<forall>a\<in>set pre. contourArea a < contourArea c') \<and>
            (\<forall>b\<in>set post. contourArea b \<le> contourArea c')"
      then obtain pre c' post where d: "cs = pre @ c' # post" "r = Some c'"
        "contourArea c < contourArea c'" "\<forall>a\<in>set pre. contourArea a < contourArea c'"
        "\<forall>b\<in>set post. contourArea b \<le> contourArea c'" by blast
      have "c # cs = (c # pre) @ c' # post \<and> r = Some c' \<and> m < contourArea c' \<and>
            (\<forall>a\<in>set (c # pre). contourArea a < contourArea c') \<and>
            (\<forall>b\<in>set post. contourArea b \<le> contourArea c')"
        using d True by simp
      then show ?thesis by (intro disjI2 exI)
    qed
  next
    case False
    with Cons.prems nt
    have rec: "fst (maxContourLoop thr cs (i + 1) m mc (alloc (ContourMat i) h)) = Inr r"
      by (simp add: Let_def)
    from Cons.IH[OF rec] show ?thesis
    proof
      assume "r = mc \<and> (\<forall>c'\<in>set cs. contourArea c' \<le> m)"
      with False show ?thesis by simp
    next
      assume "\<exists>pre c' post. cs = pre @ c' # post \<and> r = Some c' \<and> m < contourArea c' \<and>
            (\<forall>a\<in>set pre. contourArea a < contourArea c') \<and>
            (\<forall>b\<in>set post. contourArea b \<le> contourArea c')"
      then obtain pre c' post where d: "cs = pre @ c' # post" "r = Some c'"
        "m < contourArea c'" "\<forall>a\<in>set pre. contourArea a < contourArea c'"
        "\<forall>b\<in>set post. contourArea b \<le> contourArea c'" by blast
      have "c # cs = (c # pre) @ c' # post \<and> r = Some c' \<and> m < contourArea c' \<and>
            (\<forall>a\<in>set (c # pre). contourArea a < contourArea c') \<and>
            (\<forall>b\<in>set post. contourArea b \<le> contourArea c')"
        using d False by simp
      then show ?thesis by (intro disjI2 exI)
    qed
  qed
qed

lemma pdi_no_throw:
  assumes "\<forall>k. \<not> throws env k"
  shows "\<exists>mc. (\<forall>h. fst (maxContourLoop (throws env) (foundContours env img) 0 0 None h) = Inr mc) \<and>
     result (processDrawingImage env img) =
       Inr (map_option (\<lambda>c. boxPartition (boundingRect c) (img_width img) (img_height img)) mc)"
proof -
  from loop_no_throw[of "throws env"] assms obtain mc where
    "fst (maxContourLoop (throws env) (foundContours env img) 0 0 None emptyHeap) = Inr mc" by blast
  then have mc: "\<forall>h. fst (maxContourLoop (throws env) (foundContours env img) 0 0 None h) = Inr mc"
    using loop_fst_heap[of "throws env" "foundContours env img" 0 0 None _ emptyHeap] by simp
  have "result (processDrawingImage env img) =
       Inr (map_option (\<lambda>c. boxPartition (boundingRect c) (img_width img) (img_height img)) mc)"
    using assms mc
    by (cases mc) (simp_all add: processDrawingImage_def Let_def split_beta releaseAndReturn_def)
  with mc show ?thesis by blast
qed

lemma loop_keep:
  assumes "\<forall>k. \<not> thr (ContourAreaAt k)" and "\<forall>b\<in>set cs. contourArea b \<le> m"
  shows "fst (maxContourLoop thr cs i m mc h) = Inr mc"
  using assms by (induction cs arbitrary: i h) (auto simp: Let_def)

lemma loop_complete:
  assumes "\<forall>k. \<not> thr (ContourAreaAt k)"
    and "m < contourArea c"
    and "\<forall>a\<in>set pre. contourArea a < contourArea c"
    and "\<forall>b\<in>set post. contourArea b \<le> contourArea c"
  shows "fst (maxContourLoop thr (pre @ c # post) i m mc h) = Inr (Some c)"
  using assms
proof (induction pre arbitrary: i m mc h)
  case Nil
  then show ?case by (simp add: Let_def loop_keep)
next
  case (Cons a pre)
  then show ?case by (simp add: Let_def)
qed

section \<open>The box partition\<close>

text \<open>
  Claim C1. Let \<open>c\<close> be the contour that the selection loop picks (the first one of
  greatest area, its area positive) and \<open>r\<close> its bounding rectangle, of width \<open>W\<close> and
  height \<open>H\<close>. Then \<open>processDrawingImage\<close> returns the parts with
  HEAD at \<open>x = r.x + 0.25 W\<close>, \<open>y = r.y\<close>, width \<open>0.5 W\<close>, height \<open>0.2 H\<close>;
  BODY at \<open>x = r.x + 0.20 W\<close>, \<open>y = r.y + 0.2 H\<close>, width \<open>0.6 W\<close>, height \<open>0.4 H\<close>;
  LEGS at \<open>x = r.x + 0.20 W\<close>, \<open>y = r.y + 0.6 H\<close>, width \<open>0.6 W\<close>, height \<open>0.4 H\<close>.
  This holds for every rectangle, in particular for \<open>W > 0\<close> and \<open>H > 0\<close>.
\<close>

theorem box_partition_fractions:
  assumes "\<forall>k. \<not> throws env k"
    and "foundContours env img = pre @ c # post"
    and "0 < contourArea c"
    and "\<forall>a\<in>set pre. contourArea a < contourArea c"
    and "\<forall>b\<in>set post. contourArea b \<le> contourArea c"
    and "boundingRect c = r"
  shows "result (processDrawingImage env img) = Inr (Some
      \<lparr>headBox = \<lparr>rect_x = rect_x r + 0.25 * rect_width r, rect_y = rect_y r,
                  rect_width = 0.5 * rect_width r, rect_height = 0.2 * rect_height r\<rparr>,
       bodyBox = \<lparr>rect_x = rect_x r + 0.20 * rect_width r, rect_y = rect_y r + 0.2 * rect_height r,
                  rect_width = 0.6 * rect_width r, rect_height = 0.4 * rect_height r\<rparr>,
       legsBox = \<lparr>rect_x = rect_x r + 0.20 * rect_width r, rect_y = rect_y r + 0.6 * rect_height r,
                  rect_width = 0.6 * rect_width r, rect_height = 0.4 * rect_height r\<rparr>,
       imgW = img_width img, imgH = img_height img\<rparr>)"
proof -
  have sel: "fst (maxContourLoop (throws env) (foundContours env img) 0 0 None emptyHeap)
               = Inr (Some c)"
    using assms(1-5) by (simp add: loop_complete)
  from pdi_no_throw[OF assms(1), of img] obtain mc where
    mc: "\<forall>h. fst (maxContourLoop (throws env) (foundContours env img) 0 0 None h) = Inr mc"
    and res: "result (processDrawingImage env img) =
       Inr (map_option (\<lambda>c. boxPartition (boundingRect c) (img_width img) (img_height img)) mc)"
    by blast
  from mc[rule_format, of emptyHeap] sel have "mc = Some c" by simp
  with res have "result (processDrawingImage env img) =
          Inr (Some (boxPartition (boundingRect c) (img_width img) (img_height img)))"
    by simp
  then show ?thesis using assms(6) by (simp add: boxPartition_def mult.commute)
qed

text \<open>
  The scenario of the specification: the silhouette of a 400 x 800 image covers the
  rectangle \<open>{x: 50, y: 50, w: 300, h: 700}\<close>; a smaller contour comes first.
\<close>

theorem box_partition_fractions_witness:
  "result (processDrawingImage
      \<lparr>throws = (\<lambda>k. False),
       foundContours = (\<lambda>i. [\<lparr>contourArea = 12, boundingRect = \<lparr>rect_x = 0, rect_y = 0, rect_width = 4, rect_height = 3\<rparr>\<rparr>,
                              \<lparr>contourArea = 210000, boundingRect = \<lparr>rect_x = 50, rect_y = 50, rect_width = 300, rect_height = 700\<rparr>\<rparr>])\<rparr>
      \<lparr>img_width = 400, img_height = 800\<rparr>)
   = Inr (Some
      \<lparr>headBox = \<lparr>rect_x = 125, rect_y = 50, rect_width = 150, rect_height = 140\<rparr>,
       bodyBox = \<lparr>rect_x = 110, rect_y = 190, rect_width = 180, rect_height = 280\<rparr>,
       legsBox = \<lparr>rect_x = 110, rect_y = 470, rect_width = 180, rect_height = 280\<rparr>,
       imgW = 400, imgH = 800\<rparr>)"
  using box_partition_fractions
    [of "\<lparr>throws = (\<lambda>k. False),
       foundContours = (\<lambda>i. [\<lparr>contourArea = 12, boundingRect = \<lparr>rect_x = 0, rect_y = 0, rect_width = 4, rect_height = 3\<rparr>\<rparr>,
                              \<lparr>contourArea = 210000, boundingRect = \<lparr>rect_x = 50, rect_y = 50, rect_width = 300, rect_height = 700\<rparr>\<rparr>])\<rparr>"
        "\<lparr>img_width = 400, img_height = 800\<rparr>"
        "[\<lparr>contourArea = 12, boundingRect = \<lparr>rect_x = 0, rect_y = 0, rect_width = 4, rect_height = 3\<rparr>\<rparr>]"
        "\<lparr>contourArea = 210000, boundingRect = \<lparr>rect_x = 50, rect_y = 50, rect_width = 300, rect_height = 700\<rparr>\<rparr>"
        "[]"
        "\<lparr>rect_x = 50, rect_y = 50, rect_width = 300, rect_height = 700\<rparr>"]
  by simp

section \<open>Extraction\<close>

text \<open>
  Claim C3, amended. When no library call throws, \<open>processDrawingImage\<close> returns. It
  returns the empty result exactly when no contour has a strictly positive area; a
  contour of area 0 is never selected. Otherwise the parts it returns are the partition
  of the bounding rectangle of the first contour, in extraction order, whose area is the
  greatest.
\<close>

theorem extraction_selects_first_largest:
  assumes "\<forall>k. \<not> throws env k"
  shows "(result (processDrawingImage env img) = Inr None
            \<longleftrightarrow> (\<forall>c\<in>set (foundContours env img). contourArea c \<le> 0))
       \<and> (\<forall>p. result (processDrawingImage env img) = Inr (Some p) \<longrightarrow>
            (\<exists>pre c post. foundContours env img = pre @ c # post \<and> 0 < contourArea c \<and>
               (\<forall>a\<in>set pre. contourArea a < contourArea c) \<and>
               (\<forall>b\<in>set post. contourArea b \<le> contourArea c) \<and>
               p = boxPartition (boundingRect c) (img_width img) (img_height img)))
       \<and> (\<exists>q. result (processDrawingImage env img) = Inr q)"
proof -
  from pdi_no_throw[OF assms, of img] obtain mc where
    mc: "\<forall>h. fst (maxContourLoop (throws env) (foundContours env img) 0 0 None h) = Inr mc"
    and res: "result (processDrawingImage env img) =
       Inr (map_option (\<lambda>c. boxPartition (boundingRect c) (img_width img) (img_height img)) mc)"
    by blast
  from loop_select[OF mc[rule_format, of emptyHeap]] have alt:
    "(mc = None \<and> (\<forall>c\<in>set (foundContours env img). contourArea c \<le> 0)) \<or>
     (\<exists>pre c post. foundContours env img = pre @ c # post \<and> mc = Some c \<and> 0 < contourArea c \<and>
            (\<forall>a\<in>set pre. contourArea a < contourArea c) \<and>
            (\<forall>b\<in>set post. contourArea b \<le> contourArea c))" .
  have one: "result (processDrawingImage env img) = Inr None
            \<longleftrightarrow> (\<forall>c\<in>set (foundContours env img). contourArea c \<le> 0)"
  proof
    assume "result (processDrawingImage env img) = Inr None"
    with res have "mc = None" by simp
    with alt show "\<forall>c\<in>set (foundContours env img). contourArea c \<le> 0" by auto
  next
    assume le: "\<forall>c\<in>set (foundContours env img). contourArea c \<le> 0"
    have "mc = None"
    proof (rule ccontr)
      assume "mc \<noteq> None"
      with alt obtain pre c post where "foundContours env img = pre @ c # post" "0 < contourArea c"
        by auto
      with le show False by auto
    qed
    with res show "result (processDrawingImage env img) = Inr None" by simp
  qed
  have two: "\<forall>p. result (processDrawingImage env img) = Inr (Some p) \<longrightarrow>
            (\<exists>pre c post. foundContours env img = pre @ c # post \<and> 0 < contourArea c \<and>
               (\<forall>a\<in>set pre. contourArea a < contourArea c) \<and>
               (\<forall>b\<in>set post. contourArea b \<le> contourArea c) \<and>
               p = boxPartition (boundingRect c) (img_width img) (img_height img))"
  proof (intro allI impI)
    fix p assume "result (processDrawingImage env img) = Inr (Some p)"
    with res have mp: "map_option (\<lambda>c. boxPartition (boundingRect c) (img_width img) (img_height img)) mc = Some p"
      by simp
    then obtain c0 where c0: "mc = Some c0"
      "p = boxPartition (boundingRect c0) (img_width img) (img_height img)" by auto
    with alt obtain pre c post where d: "foundContours env img = pre @ c # post" "mc = Some c"
      "0 < contourArea c" "\<forall>a\<in>set pre. contourArea a < contourArea c"
      "\<forall>b\<in>set post. contourArea b \<le> contourArea c" by auto
    from c0 d(2) have "c0 = c" by simp
    with c0(2) d have "foundContours env img = pre @ c # post \<and> 0 < contourArea c \<and>
               (\<forall>a\<in>set pre. contourArea a < contourArea c) \<and>
               (\<forall>b\<in>set post. contourArea b \<le> contourArea c) \<and>
               p = boxPartition (boundingRect c) (img_width img) (img_height img)" by simp
    then show "\<exists>pre c post. foundContours env img = pre @ c # post \<and> 0 < contourArea c \<and>
               (\<forall>a\<in>set pre. contourArea a < contourArea c) \<and>
               (\<forall>b\<in>set post. contourArea b \<le> contourArea c) \<and>
               p = boxPartition (boundingRect c) (img_width img) (img_height img)"
      by (intro exI)
  qed
  from res have three: "\<exists>q. result (processDrawingImage env img) = Inr q" by blast
  from one two three show ?thesis by (intro conjI)
qed

text \<open>
  Four contours of areas 5, 9, 9 and 2: the result is not empty, and it is the partition
  of the rectangle of a contour of greatest area with no equal before it.
\<close>

theorem extraction_selects_first_largest_witness:
  "(\<forall>k. \<not> throws \<lparr>throws = (\<lambda>k. False), foundContours = (\<lambda>i.
        [\<lparr>contourArea = 5, boundingRect = \<lparr>rect_x = 0, rect_y = 0, rect_width = 2, rect_height = 3\<rparr>\<rparr>,
         \<lparr>contourArea = 9, boundingRect = \<lparr>rect_x = 10, rect_y = 0, rect_width = 10, rect_height = 20\<rparr>\<rparr>,
         \<lparr>contourArea = 9, boundingRect = \<lparr>rect_x = 5, rect_y = 5, rect_width = 3, rect_height = 3\<rparr>\<rparr>,
         \<lparr>contourArea = 2, boundingRect = \<lparr>rect_x = 1, rect_y = 1, rect_width = 2, rect_height = 1\<rparr>\<rparr>])\<rparr> k)
   \<and> result (processDrawingImage \<lparr>throws = (\<lambda>k. False), foundContours = (\<lambda>i.
        [\<lparr>contourArea = 5, boundingRect = \<lparr>rect_x = 0, rect_y = 0, rect_width = 2, rect_height = 3\<rparr>\<rparr>,
         \<lparr>contourArea = 9, boundingRect = \<lparr>rect_x = 10, rect_y = 0, rect_width = 10, rect_height = 20\<rparr>\<rparr>,
         \<lparr>contourArea = 9, boundingRect = \<lparr>rect_x = 5, rect_y = 5, rect_width = 3, rect_height = 3\<rparr>\<rparr>,
         \<lparr>contourArea = 2, boundingRect = \<lparr>rect_x = 1, rect_y = 1, rect_width = 2, rect_height = 1\<rparr>\<rparr>])\<rparr>
        \<lparr>img_width = 40, img_height = 40\<rparr>) \<noteq> Inr None
   \<and> (\<exists>pre c post.
        [\<lparr>contourArea = 5, boundingRect = \<lparr>rect_x = 0, rect_y = 0, rect_width = 2, rect_height = 3\<rparr>\<rparr>,
         \<lparr>contourArea = 9, boundingRect = \<lparr>rect_x = 10, rect_y = 0, rect_width = 10, rect_height = 20\<rparr>\<rparr>,
         \<lparr>contourArea = 9, boundingRect = \<lparr>rect_x = 5, rect_y = 5, rect_width = 3, rect_height = 3\<rparr>\<rparr>,
         \<lparr>contourArea = 2, boundingRect = \<lparr>rect_x = 1, rect_y = 1, rect_width = 2, rect_height = 1\<rparr>\<rparr>]
          = pre @ c # post
        \<and> 0 < contourArea c
        \<and> (\<forall>a\<in>set pre. contourArea a < contourArea c)
        \<and> (\<forall>b\<in>set post. contourArea b \<le> contourArea c)
        \<and> boxPartition \<lparr>rect_x = 10, rect_y = 0, rect_width = 10, rect_height = 20\<rparr> 40 40
            = boxPartition (boundingRect c) 40 40)"
proof -
  let ?E = "\<lparr>throws = (\<lambda>k. False), foundContours = (\<lambda>i.
        [\<lparr>contourArea = 5, boundingRect = \<lparr>rect_x = 0, rect_y = 0, rect_width = 2, rect_height = 3\<rparr>\<rparr>,
         \<lparr>contourArea = 9, boundingRect = \<lparr>rect_x = 10, rect_y = 0, rect_width = 10, rect_height = 20\<rparr>\<rparr>,
         \<lparr>contourArea = 9, boundingRect = \<lparr>rect_x = 5, rect_y = 5, rect_width = 3, rect_height = 3\<rparr>\<rparr>,
         \<lparr>contourArea = 2, boundingRect = \<lparr>rect_x = 1, rect_y = 1, rect_width = 2, rect_height = 1\<rparr>\<rparr>])\<rparr>"
  let ?I = "\<lparr>img_width = 40, img_height = 40\<rparr>"
  have h: "\<forall>k. \<not> throws ?E k" by simp
  have r: "result (processDrawingImage ?E ?I)
      = Inr (Some (boxPartition \<lparr>rect_x = 10, rect_y = 0, rect_width = 10, rect_height = 20\<rparr> 40 40))"
    by (simp add: processDrawingImage_def Let_def split_beta releaseAndReturn_def)
  from extraction_selects_first_largest[OF h, of ?I] r h show ?thesis by simp
qed

text \<open>
  The claim as stated fails: a single boundary of area 0 (a one-pixel-wide stroke) is
  found, and the result is empty.
\<close>

theorem zero_area_boundary_counterexample:
  "\<not> (result (processDrawingImage
          \<lparr>throws = (\<lambda>k. False),
           foundContours = (\<lambda>i. [\<lparr>contourArea = 0, boundingRect = \<lparr>rect_x = 3, rect_y = 4, rect_width = 9, rect_height = 1\<rparr>\<rparr>])\<rparr>
          \<lparr>img_width = 20, img_height = 20\<rparr>) = Inr None
       \<longleftrightarrow> foundContours
          \<lparr>throws = (\<lambda>k. False),
           foundContours = (\<lambda>i. [\<lparr>contourArea = 0, boundingRect = \<lparr>rect_x = 3, rect_y = 4, rect_width = 9, rect_height = 1\<rparr>\<rparr>])\<rparr>
          \<lparr>img_width = 20, img_height = 20\<rparr> = [])"
  by (simp add: processDrawingImage_def Let_def split_beta releaseAndReturn_def)

section \<open>Release of the native buffers\<close>

text \<open>
  A call that returns has gone through the whole loop and through the seven \<open>delete()\<close>
  calls of lines 317--318: it has created the seven buffers and one \<open>Mat\<close> for each
  contour, and it has deleted the seven buffers and nothing else.
\<close>

lemma pdi_return_heap:
  assumes "result (processDrawingImage env img) = Inr p"
  shows "(\<exists>r. fst (maxContourLoop (throws env) (foundContours env img) 0 0 None
                 \<lparr>allocated = [Src, Gray, Blur, Binary, Kernel, Contours, Hierarchy], deleted = []\<rparr>)
               = Inr r)
       \<and> allocated (heap (processDrawingImage env img))
           = allocated (snd (maxContourLoop (throws env) (foundContours env img) 0 0 None
                 \<lparr>allocated = [Src, Gray, Blur, Binary, Kernel, Contours, Hierarchy], deleted = []\<rparr>))
       \<and> deleted (heap (processDrawingImage env img))
           = deleted (snd (maxContourLoop (throws env) (foundContours env img) 0 0 None
                 \<lparr>allocated = [Src, Gray, Blur, Binary, Kernel, Contours, Hierarchy], deleted = []\<rparr>))
             @ [Src, Gray, Blur, Binary, Kernel, Contours, Hierarchy]"
  using assms
  by (auto simp: processDrawingImage_def Let_def split_beta thrown_def releaseAndReturn_def
        alloc_def delete_def emptyHeap_def split: if_splits sum.splits option.splits exn.splits)

lemma contour_mats_left_on_return:
  assumes "result (processDrawingImage env img) = Inr p"
  shows "allocated (heap (processDrawingImage env img))
           = [Src, Gray, Blur, Binary, Kernel, Contours, Hierarchy]
             @ map ContourMat [0..<length (foundContours env img)]
       \<and> deleted (heap (processDrawingImage env img))
           = [Src, Gray, Blur, Binary, Kernel, Contours, Hierarchy]
       \<and> leaked (heap (processDrawingImage env img))
           = map ContourMat [0..<length (foundContours env img)]"
proof -
  let ?h7 = "\<lparr>allocated = [Src, Gray, Blur, Binary, Kernel, Contours, Hierarchy], deleted = []\<rparr>"
  from pdi_return_heap[OF assms] obtain r where
    r: "fst (maxContourLoop (throws env) (foundContours env img) 0 0 None ?h7) = Inr r"
    and al: "allocated (heap (processDrawingImage env img))
           = allocated (snd (maxContourLoop (throws env) (foundContours env img) 0 0 None ?h7))"
    and de: "deleted (heap (processDrawingImage env img))
           = deleted (snd (maxContourLoop (throws env) (foundContours env img) 0 0 None ?h7))
             @ [Src, Gray, Blur, Binary, Kernel, Contours, Hierarchy]"
    by blast
  have a: "allocated (heap (processDrawingImage env img))
           = [Src, Gray, Blur, Binary, Kernel, Contours, Hierarchy]
             @ map ContourMat [0..<length (foundContours env img)]"
    using al loop_allocated[OF r] by simp
  have d: "deleted (heap (processDrawingImage env img))
           = [Src, Gray, Blur, Binary, Kernel, Contours, Hierarchy]"
    using de by (simp add: loop_deleted)
  have l: "leaked (heap (processDrawingImage env img))
           = map ContourMat [0..<length (foundContours env img)]"
    unfolding leaked_def a d by (simp add: filter_map comp_def)
  from a d l show ?thesis by simp
qed

text \<open>
  Claim C8, amended. Every call of \<open>processDrawingImage\<close> that returns, with parts or
  with the empty result, has created the seven buffers (source, grayscale, blur, binary,
  kernel, contours, hierarchy) and has called \<open>delete()\<close> on each of them, and on
  nothing else, before it returns: none of the seven is left.
\<close>

theorem buffers_released_on_return:
  assumes "result (processDrawingImage env img) = Inr p"
  shows "deleted (heap (processDrawingImage env img))
           = [Src, Gray, Blur, Binary, Kernel, Contours, Hierarchy]
       \<and> set [Src, Gray, Blur, Binary, Kernel, Contours, Hierarchy]
           \<subseteq> set (allocated (heap (processDrawingImage env img)))
       \<and> set (leaked (heap (processDrawingImage env img)))
           \<inter> set [Src, Gray, Blur, Binary, Kernel, Contours, Hierarchy] = {}"
proof -
  note f = contour_mats_left_on_return[OF assms]
  have d: "deleted (heap (processDrawingImage env img))
           = [Src, Gray, Blur, Binary, Kernel, Contours, Hierarchy]"
    using f by simp
  have a: "set [Src, Gray, Blur, Binary, Kernel, Contours, Hierarchy]
           \<subseteq> set (allocated (heap (processDrawingImage env img)))"
    using f by simp
  have l: "set (leaked (heap (processDrawingImage env img)))
           \<inter> set [Src, Gray, Blur, Binary, Kernel, Contours, Hierarchy] = {}"
    using f by auto
  from d a l show ?thesis by (intro conjI)
qed

text \<open>
  The success path: two contours, the second is selected, parts are returned and the
  seven buffers are released.
\<close>

theorem buffers_released_on_return_witness:
  "result (processDrawingImage
      \<lparr>throws = (\<lambda>k. False),
       foundContours = (\<lambda>i. [\<lparr>contourArea = 12, boundingRect = \<lparr>rect_x = 0, rect_y = 0, rect_width = 4, rect_height = 3\<rparr>\<rparr>,
                              \<lparr>contourArea = 210000, boundingRect = \<lparr>rect_x = 50, rect_y = 50, rect_width = 300, rect_height = 700\<rparr>\<rparr>])\<rparr>
      \<lparr>img_width = 400, img_height = 800\<rparr>)
     = Inr (Some (boxPartition \<lparr>rect_x = 50, rect_y = 50, rect_width = 300, rect_height = 700\<rparr> 400 800))
   \<and> deleted (heap (processDrawingImage
      \<lparr>throws = (\<lambda>k. False),
       foundContours = (\<lambda>i. [\<lparr>contourArea = 12, boundingRect = \<lparr>rect_x = 0, rect_y = 0, rect_width = 4, rect_height = 3\<rparr>\<rparr>,
                              \<lparr>contourArea = 210000, boundingRect = \<lparr>rect_x = 50, rect_y = 50, rect_width = 300, rect_height = 700\<rparr>\<rparr>])\<rparr>
      \<lparr>img_width = 400, img_height = 800\<rparr>))
     = [Src, Gray, Blur, Binary, Kernel, Contours, Hierarchy]
   \<and> set [Src, Gray, Blur, Binary, Kernel, Contours, Hierarchy]
       \<subseteq> set (allocated (heap (processDrawingImage
      \<lparr>throws = (\<lambda>k. False),
       foundContours = (\<lambda>i. [\<lparr>contourArea = 12, boundingRect = \<lparr>rect_x = 0, rect_y = 0, rect_width = 4, rect_height = 3\<rparr>\<rparr>,
                              \<lparr>contourArea = 210000, boundingRect = \<lparr>rect_x = 50, rect_y = 50, rect_width = 300, rect_height = 700\<rparr>\<rparr>])\<rparr>
      \<lparr>img_width = 400, img_height = 800\<rparr>)))
   \<and> set (leaked (heap (processDrawingImage
      \<lparr>throws = (\<lambda>k. False),
       foundContours = (\<lambda>i. [\<lparr>contourArea = 12, boundingRect = \<lparr>rect_x = 0, rect_y = 0, rect_width = 4, rect_height = 3\<rparr>\<rparr>,
                              \<lparr>contourArea = 210000, boundingRect = \<lparr>rect_x = 50, rect_y = 50, rect_width = 300, rect_height = 700\<rparr>\<rparr>])\<rparr>
      \<lparr>img_width = 400, img_height = 800\<rparr>)))
       \<inter> set [Src, Gray, Blur, Binary, Kernel, Contours, Hierarchy] = {}"
proof -
  let ?E = "\<lparr>throws = (\<lambda>k. False),
       foundContours = (\<lambda>i. [\<lparr>contourArea = 12, boundingRect = \<lparr>rect_x = 0, rect_y = 0, rect_width = 4, rect_height = 3\<rparr>\<rparr>,
                              \<lparr>contourArea = 210000, boundingRect = \<lparr>rect_x = 50, rect_y = 50, rect_width = 300, rect_height = 700\<rparr>\<rparr>])\<rparr>"
  let ?I = "\<lparr>img_width = 400, img_height = 800\<rparr>"
  have r: "result (processDrawingImage ?E ?I)
     = Inr (Some (boxPartition \<lparr>rect_x = 50, rect_y = 50, rect_width = 300, rect_height = 700\<rparr> 400 800))"
    by (simp add: processDrawingImage_def Let_def split_beta releaseAndReturn_def)
  from buffers_released_on_return[OF r] r show ?thesis by (intro conjI) simp_all
qed

text \<open>
  The \<open>delete()\<close> calls stand at the end of the function, outside any \<open>finally\<close>: a call
  that throws skips them all.
\<close>

lemma nothing_released_on_throw:
  assumes "result (processDrawingImage env img) = Inl e"
  shows "deleted (heap (processDrawingImage env img)) = []"
  using assms
  by (auto simp: processDrawingImage_def Let_def split_beta thrown_def releaseAndReturn_def
        alloc_def delete_def emptyHeap_def loop_deleted
        split: if_splits sum.splits option.splits exn.splits)

text \<open>
  The claim as stated fails. On the thrown-error path: when \<open>cv.findContours\<close> throws,
  the seven buffers exist and none is released. On the success path: with two contours,
  parts are returned and the two objects of \<open>contours.get(0)\<close> and \<open>contours.get(1)\<close> are
  left.
\<close>

theorem buffers_left_counterexample:
  "result (processDrawingImage \<lparr>throws = (\<lambda>k. k = FindContours), foundContours = (\<lambda>i. [])\<rparr>
             \<lparr>img_width = 4, img_height = 4\<rparr>) = Inl (Thrown FindContours)
   \<and> leaked (heap (processDrawingImage \<lparr>throws = (\<lambda>k. k = FindContours), foundContours = (\<lambda>i. [])\<rparr>
             \<lparr>img_width = 4, img_height = 4\<rparr>)) = [Src, Gray, Blur, Binary, Kernel, Contours, Hierarchy]
   \<and> result (processDrawingImage
      \<lparr>throws = (\<lambda>k. False),
       foundContours = (\<lambda>i. [\<lparr>contourArea = 12, boundingRect = \<lparr>rect_x = 0, rect_y = 0, rect_width = 4, rect_height = 3\<rparr>\<rparr>,
                              \<lparr>contourArea = 210000, boundingRect = \<lparr>rect_x = 50, rect_y = 50, rect_width = 300, rect_height = 700\<rparr>\<rparr>])\<rparr>
      \<lparr>img_width = 400, img_height = 800\<rparr>)
     = Inr (Some (boxPartition \<lparr>rect_x = 50, rect_y = 50, rect_width = 300, rect_height = 700\<rparr> 400 800))
   \<and> leaked (heap (processDrawingImage
      \<lparr>throws = (\<lambda>k. False),
       foundContours = (\<lambda>i. [\<lparr>contourArea = 12, boundingRect = \<lparr>rect_x = 0, rect_y = 0, rect_width = 4, rect_height = 3\<rparr>\<rparr>,
                              \<lparr>contourArea = 210000, boundingRect = \<lparr>rect_x = 50, rect_y = 50, rect_width = 300, rect_height = 700\<rparr>\<rparr>])\<rparr>
      \<lparr>img_width = 400, img_height = 800\<rparr>))
     = [ContourMat 0, ContourMat 1]"
  by (simp add: processDrawingImage_def Let_def split_beta thrown_def releaseAndReturn_def
        alloc_def delete_def emptyHeap_def leaked_def)

section \<open>The pipeline of the second source file\<close>

text \<open>
  When no call throws, the earlier version builds the rig from the parts that
  \<open>processDrawingImage\<close> of app.js returns, and keeps the state when that result is
  empty. When it returns it has released its five buffers, and not the \<open>Mat\<close> of any
  \<open>contours.get(i)\<close>; when it throws it has released nothing.
\<close>

lemma processDrawingImage2_agrees:
  assumes "\<forall>k. \<not> throws env k"
  shows "fst (processDrawingImage2 env img s) = Inr ()
    \<and> snd (snd (processDrawingImage2 env img s)) =
       (case result (processDrawingImage env img) of
          Inr (Some p) \<Rightarrow> createSkeletonModel (headBox p) (bodyBox p) (legsBox p) (imgW p) (imgH p) s
        | Inr None \<Rightarrow> s
        | Inl e \<Rightarrow> s)"
proof -
  from pdi_no_throw[OF assms, of img] obtain mc where
    mc: "\<forall>h. fst (maxContourLoop (throws env) (foundContours env img) 0 0 None h) = Inr mc"
    and res: "result (processDrawingImage env img) =
       Inr (map_option (\<lambda>c. boxPartition (boundingRect c) (img_width img) (img_height img)) mc)"
    by blast
  show ?thesis
    using assms mc res
    by (cases mc)
       (simp_all add: processDrawingImage2_def releaseAndReturn2_def Let_def split_beta
          boxPartition_def)
qed

lemma processDrawingImage2_released:
  assumes "fst (processDrawingImage2 env img s) = Inr u"
  shows "allocated (fst (snd (processDrawingImage2 env img s)))
           = [Src, Gray, Binary, Contours, Hierarchy]
             @ map ContourMat [0..<length (foundContours env img)]
       \<and> deleted (fst (snd (processDrawingImage2 env img s)))
           = [Src, Gray, Binary, Contours, Hierarchy]"
proof -
  let ?h5 = "\<lparr>allocated = [Src, Gray, Binary, Contours, Hierarchy], deleted = []\<rparr>"
  let ?l = "maxContourLoop (throws env) (foundContours env img) 0 0 None ?h5"
  have "(\<exists>r. fst ?l = Inr r)
      \<and> allocated (fst (snd (processDrawingImage2 env img s))) = allocated (snd ?l)
      \<and> deleted (fst (snd (processDrawingImage2 env img s)))
          = deleted (snd ?l) @ [Src, Gray, Binary, Contours, Hierarchy]"
    using assms
    by (auto simp: processDrawingImage2_def Let_def split_beta releaseAndReturn2_def alloc_def
        delete_def emptyHeap_def split: if_splits sum.splits option.splits)
  then obtain r where r: "fst ?l = Inr r"
    and al: "allocated (fst (snd (processDrawingImage2 env img s))) = allocated (snd ?l)"
    and de: "deleted (fst (snd (processDrawingImage2 env img s)))
          = deleted (snd ?l) @ [Src, Gray, Binary, Contours, Hierarchy]"
    by blast
  from al de loop_allocated[OF r] show ?thesis by (simp add: loop_deleted)
qed

lemma processDrawingImage2_thrown:
  assumes "fst (processDrawingImage2 env img s) = Inl e"
  shows "deleted (fst (snd (processDrawingImage2 env img s))) = []
       \<and> snd (snd (processDrawingImage2 env img s)) = s"
  using assms
  by (auto simp: processDrawingImage2_def Let_def split_beta releaseAndReturn2_def alloc_def
        delete_def emptyHeap_def loop_deleted split: if_splits sum.splits option.splits)

section \<open>The rig\<close>

lemma skeletonGroup_children:
  "children (skeletonGroup p) =
     [(newNode (Mesh (BoxGeometry (rect_width (headBox p) * 0.001) (rect_height (headBox p) * 0.001) 0.08)
                     (MeshStandardMaterial 0xffe066 0.05 0.7)))
        \<lparr>position := vec 0 ((rect_height (bodyBox p) * 0.001) / 2 + (rect_height (headBox p) * 0.001) / 2) 0\<rparr>,
      (newNode (Mesh (BoxGeometry (rect_width (bodyBox p) * 0.001) (rect_height (bodyBox p) * 0.001) 0.1)
                     (MeshStandardMaterial 0x66d9e8 0.05 0.7)))
        \<lparr>position := vec 0 0 0\<rparr>,
      (newNode (Mesh (BoxGeometry (rect_width (legsBox p) * 0.001) (rect_height (legsBox p) * 0.001) 0.12)
                     (MeshStandardMaterial 0xb197fc 0.05 0.7)))
        \<lparr>position := vec 0 (- (rect_height (bodyBox p) * 0.001) / 2 - (rect_height (legsBox p) * 0.001) / 2) 0\<rparr>]"
  by (simp add: skeletonGroup_def Let_def newObject_def object3d.defs node3d.defs)

lemma replaceWithSkeleton_model:
  "model (replaceWithSkeleton p s) = Some (nextRef s)"
  by (simp add: replaceWithSkeleton_def new_def installModel_def removeModel_def sceneAdd_def
      sceneRemove_def updObj_def Let_def split: option.split)

lemma replaceWithSkeleton_obj:
  "objs (replaceWithSkeleton p s) (nextRef s) = (skeletonGroup p)\<lparr>visible := False\<rparr>"
  by (simp add: replaceWithSkeleton_def new_def installModel_def removeModel_def sceneAdd_def
      sceneRemove_def updObj_def Let_def split: option.split)

lemma createSkeletonModel_model:
  "model (createSkeletonModel hb bb lb w h s) = Some (nextRef s)"
  by (simp add: createSkeletonModel_def new_def installModel_def removeModel_def sceneAdd_def
      sceneRemove_def updObj_def Let_def split: option.split)

lemma createSkeletonModel_obj:
  "objs (createSkeletonModel hb bb lb w h s) (nextRef s) = (skeletonGroup2 hb bb lb)\<lparr>visible := False\<rparr>"
  by (simp add: createSkeletonModel_def new_def installModel_def removeModel_def sceneAdd_def
      sceneRemove_def updObj_def Let_def split: option.split)

lemma skeletonGroup2_children:
  "children (skeletonGroup2 hb bb lb) =
     [(newNode (Mesh (BoxGeometry (rect_width hb * 0.001) (rect_height hb * 0.001) 0.1)
                     (MeshStandardMaterial 0xffff00 0 1)))
        \<lparr>position := vec 0 ((rect_height bb * 0.001) / 2 + (rect_height hb * 0.001) / 2) 0\<rparr>,
      (newNode (Mesh (BoxGeometry (rect_width bb * 0.001) (rect_height bb * 0.001) 0.1)
                     (MeshStandardMaterial 0xff00ff 0 1)))
        \<lparr>position := vec 0 0 0\<rparr>,
      (newNode (Mesh (BoxGeometry (rect_width lb * 0.001) (rect_height lb * 0.001) 0.1)
                     (MeshStandardMaterial 0x00ffff 0 1)))
        \<lparr>position := vec 0 (- (rect_height bb * 0.001) / 2 - (rect_height lb * 0.001) / 2) 0\<rparr>]"
  by (simp add: skeletonGroup2_def Let_def newObject_def object3d.defs node3d.defs)

text \<open>
  Claim C2. For every parts value (and every state in which the rig is built), the new
  model is a group of three meshes, head, body, legs, whose box heights are the part
  heights times 0.001. The body is at the local origin, head and legs are on the vertical
  axis, \<open>head.y - body.y = (body height + head height) / 2\<close> and
  \<open>body.y - legs.y = (body height + legs height) / 2\<close>; so the bottom face of the head is
  the top face of the body and the bottom face of the body is the top face of the legs:
  no gap and no overlap. The same holds for \<open>createSkeletonModel\<close>.
\<close>

theorem rig_parts_stacked:
  "(\<exists>head body legs.
      model (replaceWithSkeleton p s) = Some (nextRef s)
    \<and> children (objs (replaceWithSkeleton p s) (nextRef s)) = [head, body, legs]
    \<and> boxHeight (payload head) = rect_height (headBox p) * 0.001
    \<and> boxHeight (payload body) = rect_height (bodyBox p) * 0.001
    \<and> boxHeight (payload legs) = rect_height (legsBox p) * 0.001
    \<and> position body = vec 0 0 0
    \<and> vx (position head) = 0 \<and> vz (position head) = 0
    \<and> vx (position legs) = 0 \<and> vz (position legs) = 0
    \<and> vy (position head) - vy (position body) = (boxHeight (payload body) + boxHeight (payload head)) / 2
    \<and> vy (position body) - vy (position legs) = (boxHeight (payload body) + boxHeight (payload legs)) / 2
    \<and> vy (position head) - boxHeight (payload head) / 2 = vy (position body) + boxHeight (payload body) / 2
    \<and> vy (position body) - boxHeight (payload body) / 2 = vy (position legs) + boxHeight (payload legs) / 2)
 \<and> (\<exists>head body legs.
      model (createSkeletonModel hb bb lb w h s) = Some (nextRef s)
    \<and> children (objs (createSkeletonModel hb bb lb w h s) (nextRef s)) = [head, body, legs]
    \<and> boxHeight (payload head) = rect_height hb * 0.001
    \<and> boxHeight (payload body) = rect_height bb * 0.001
    \<and> boxHeight (payload legs) = rect_height lb * 0.001
    \<and> position body = vec 0 0 0
    \<and> vx (position head) = 0 \<and> vz (position head) = 0
    \<and> vx (position legs) = 0 \<and> vz (position legs) = 0
    \<and> vy (position head) - vy (position body) = (boxHeight (payload body) + boxHeight (payload head)) / 2
    \<and> vy (position body) - vy (position legs) = (boxHeight (payload body) + boxHeight (payload legs)) / 2
    \<and> vy (position head) - boxHeight (payload head) / 2 = vy (position body) + boxHeight (payload body) / 2
    \<and> vy (position body) - boxHeight (payload body) / 2 = vy (position legs) + boxHeight (payload legs) / 2)"
proof -
  have one: "\<exists>head body legs.
      model (replaceWithSkeleton p s) = Some (nextRef s)
    \<and> children (objs (replaceWithSkeleton p s) (nextRef s)) = [head, body, legs]
    \<and> boxHeight (payload head) = rect_height (headBox p) * 0.001
    \<and> boxHeight (payload body) = rect_height (bodyBox p) * 0.001
    \<and> boxHeight (payload legs) = rect_height (legsBox p) * 0.001
    \<and> position body = vec 0 0 0
    \<and> vx (position head) = 0 \<and> vz (position head) = 0
    \<and> vx (position legs) = 0 \<and> vz (position legs) = 0
    \<and> vy (position head) - vy (position body) = (boxHeight (payload body) + boxHeight (payload head)) / 2
    \<and> vy (position body) - vy (position legs) = (boxHeight (payload body) + boxHeight (payload legs)) / 2
    \<and> vy (position head) - boxHeight (payload head) / 2 = vy (position body) + boxHeight (payload body) / 2
    \<and> vy (position body) - boxHeight (payload body) / 2 = vy (position legs) + boxHeight (payload legs) / 2"
    by (simp add: replaceWithSkeleton_model replaceWithSkeleton_obj skeletonGroup_children
        newNode_def vec_def field_simps)
  have two: "\<exists>head body legs.
      model (createSkeletonModel hb bb lb w h s) = Some (nextRef s)
    \<and> children (objs (createSkeletonModel hb bb lb w h s) (nextRef s)) = [head, body, legs]
    \<and> boxHeight (payload head) = rect_height hb * 0.001
    \<and> boxHeight (payload body) = rect_height bb * 0.001
    \<and> boxHeight (payload legs) = rect_height lb * 0.001
    \<and> position body = vec 0 0 0
    \<and> vx (position head) = 0 \<and> vz (position head) = 0
    \<and> vx (position legs) = 0 \<and> vz (position legs) = 0
    \<and> vy (position head) - vy (position body) = (boxHeight (payload body) + boxHeight (payload head)) / 2
    \<and> vy (position body) - vy (position legs) = (boxHeight (payload body) + boxHeight (payload legs)) / 2
    \<and> vy (position head) - boxHeight (payload head) / 2 = vy (position body) + boxHeight (payload body) / 2
    \<and> vy (position body) - boxHeight (payload body) / 2 = vy (position legs) + boxHeight (payload legs) / 2"
    by (simp add: createSkeletonModel_model createSkeletonModel_obj skeletonGroup2_children
        newNode_def vec_def field_simps)
  from one two show ?thesis by (rule conjI)
qed

section \<open>The states of a session\<close>

text \<open>
  After \<open>initAR\<close> the children of the scene are distinct, every reference is below
  \<open>nextRef\<close>, \<open>model\<close> refers to a child of the scene and the reticle is hidden. The
  callbacks change neither the variables nor the children of the scene.
\<close>

lemma setupScene_simps:
  "sceneChildren setupScene = [0, Suc 0, 2]"
  "model setupScene = Some 2"
  "reticle setupScene = Suc 0"
  "nextRef setupScene = 3"
  "rafQueue setupScene = []"
  "visible (objs setupScene (Suc 0)) = False"
  "visible (objs setupScene 2) = False"
  by (simp_all add: setupScene_def emptyCtx_def new_def sceneAdd_def updObj_def Let_def)

lemma initAR_cases:
  "initAR b env img = setupScene \<or> (\<exists>p. initAR b env img = replaceWithSkeleton p setupScene)"
  by (auto simp: initAR_def split: sum.split option.split)

lemma initAR_wellformed:
  "distinct (sceneChildren (initAR b env img))
   \<and> (\<forall>r\<in>set (sceneChildren (initAR b env img)). r < nextRef (initAR b env img))
   \<and> (\<exists>m. model (initAR b env img) = Some m \<and> m \<in> set (sceneChildren (initAR b env img)))
   \<and> reticle (initAR b env img) \<in> set (sceneChildren (initAR b env img))
   \<and> \<not> visible (objs (initAR b env img) (reticle (initAR b env img)))
   \<and> rafQueue (initAR b env img) = []"
proof -
  from initAR_cases[of b env img] show ?thesis
  proof
    assume "initAR b env img = setupScene"
    then show ?thesis by (simp add: setupScene_simps)
  next
    assume "\<exists>p. initAR b env img = replaceWithSkeleton p setupScene"
    then obtain p where p: "initAR b env img = replaceWithSkeleton p setupScene" by blast
    have "sceneChildren (replaceWithSkeleton p setupScene) = [0, Suc 0, 3]"
      "model (replaceWithSkeleton p setupScene) = Some 3"
      "reticle (replaceWithSkeleton p setupScene) = Suc 0"
      "nextRef (replaceWithSkeleton p setupScene) = 4"
      "\<not> visible (objs (replaceWithSkeleton p setupScene) (Suc 0))"
      "rafQueue (replaceWithSkeleton p setupScene) = []"
      by (simp_all add: replaceWithSkeleton_def new_def installModel_def removeModel_def
          sceneAdd_def sceneRemove_def updObj_def Let_def setupScene_simps)
    with p show ?thesis by simp
  qed
qed

lemma animationLoop_frame:
  "model (animationLoop fr s) = model s"
  "reticle (animationLoop fr s) = reticle s"
  "sceneChildren (animationLoop fr s) = sceneChildren s"
  "nextRef (animationLoop fr s) = nextRef s"
  "rafQueue (animationLoop fr s) = rafQueue s"
  by (simp_all add: animationLoop_def updObj_def Let_def split: option.split list.split)

lemma onClick_frame:
  "model (onClick rnd now s) = model s"
  "reticle (onClick rnd now s) = reticle s"
  "sceneChildren (onClick rnd now s) = sceneChildren s"
  "nextRef (onClick rnd now s) = nextRef s"
  by (simp_all add: onClick_def updObj_def popIn_def Let_def split: option.split)

lemma step_frame:
  "model (step cb t s) = model s"
  "reticle (step cb t s) = reticle s"
  "sceneChildren (step cb t s) = sceneChildren s"
  "nextRef (step cb t s) = nextRef s"
  by (cases cb, simp add: updObj_def Let_def)+

lemma sample_result:
  "result (processDrawingImage sampleEnv sampleImage)
     = Inr (Some (boxPartition \<lparr>rect_x = 50, rect_y = 50, rect_width = 300, rect_height = 700\<rparr> 400 800))"
  by (simp add: processDrawingImage_def sampleEnv_def sampleImage_def Let_def split_beta
      releaseAndReturn_def)

lemma boxStart_eq: "boxStart = setupScene"
  by (simp add: boxStart_def initAR_def)

lemma rigStart_eq:
  "rigStart = replaceWithSkeleton
      (boxPartition \<lparr>rect_x = 50, rect_y = 50, rect_width = 300, rect_height = 700\<rparr> 400 800) boxStart"
  by (simp add: rigStart_def boxStart_def initAR_def sample_result)

lemma rigStart_simps:
  "sceneChildren rigStart = [0, 1, 3]"
  "model rigStart = Some 3"
  "reticle rigStart = 1"
  "nextRef rigStart = 4"
  "rafQueue rigStart = []"
  "visible (objs rigStart (Suc 0)) = False"
  "visible (objs rigStart 3) = False"
  by (simp_all add: rigStart_eq replaceWithSkeleton_def new_def installModel_def removeModel_def
      sceneAdd_def sceneRemove_def updObj_def Let_def boxStart_eq setupScene_simps)

lemma rigTracked_simps:
  "model rigTracked = Some 3"
  "reticle rigTracked = 1"
  "rafQueue rigTracked = []"
  "visible (objs rigTracked (Suc 0)) = True"
  "matrix (objs rigTracked (Suc 0)) = samplePose"
  "visible (objs rigTracked 3) = False"
  by (simp_all add: rigTracked_def animationLoop_def updObj_def Let_def rigStart_simps
      fromArray_def samplePose_def)

section \<open>Replacement of the rig\<close>

lemma remove_then_add:
  assumes "distinct cs" and "g \<notin> set cs"
  shows "remove1 g (remove1 old cs) = remove1 old cs"
    and "old \<notin> set (remove1 old cs)"
    and "g \<notin> set (remove1 old cs)"
  using assms by (auto simp: remove1_idem)

text \<open>
  Claim C9. Let \<open>model\<close> refer to an object \<open>old\<close> of the scene when a rig is built from
  parts. After line 354 (\<open>removeModel\<close>) neither \<open>old\<close> nor the new group is a child of
  the scene; after the function \<open>old\<close> is no child of the scene, the new group is its last
  child and occurs once, \<open>model\<close> refers to the new group, which differs from \<open>old\<close>, and
  the new group is hidden. The same holds for \<open>createSkeletonModel\<close>.
\<close>

theorem rig_replaced_in_scene:
  assumes "model s = Some old"
    and "old \<in> set (sceneChildren s)"
    and "distinct (sceneChildren s)"
    and "\<forall>r\<in>set (sceneChildren s). r < nextRef s"
  shows "old \<notin> set (sceneChildren (removeModel (snd (new (skeletonGroup p) s))))
       \<and> nextRef s \<notin> set (sceneChildren (removeModel (snd (new (skeletonGroup p) s))))
       \<and> installModel (nextRef s) (removeModel (snd (new (skeletonGroup p) s)))
            = replaceWithSkeleton p s
       \<and> sceneChildren (replaceWithSkeleton p s) = remove1 old (sceneChildren s) @ [nextRef s]
       \<and> old \<notin> set (sceneChildren (replaceWithSkeleton p s))
       \<and> distinct (sceneChildren (replaceWithSkeleton p s))
       \<and> model (replaceWithSkeleton p s) = Some (nextRef s)
       \<and> nextRef s \<noteq> old
       \<and> \<not> visible (objs (replaceWithSkeleton p s) (nextRef s))
       \<and> old \<notin> set (sceneChildren (removeModel s))
       \<and> nextRef s \<notin> set (sceneChildren (removeModel s))
       \<and> installModel (nextRef s) (snd (new (skeletonGroup2 hb bb lb) (removeModel s)))
            = createSkeletonModel hb bb lb w h s
       \<and> sceneChildren (createSkeletonModel hb bb lb w h s)
            = remove1 old (sceneChildren s) @ [nextRef s]
       \<and> model (createSkeletonModel hb bb lb w h s) = Some (nextRef s)
       \<and> \<not> visible (objs (createSkeletonModel hb bb lb w h s) (nextRef s))"
proof -
  have fresh: "nextRef s \<notin> set (sceneChildren s)" using assms(4) by auto
  have ne: "nextRef s \<noteq> old" using assms(2) fresh by auto
  note ra = remove_then_add[OF assms(3) fresh, of old]
  have mid: "sceneChildren (removeModel (snd (new (skeletonGroup p) s))) = remove1 old (sceneChildren s)"
    using assms(1) by (simp add: removeModel_def new_def sceneRemove_def)
  have fin: "sceneChildren (replaceWithSkeleton p s) = remove1 old (sceneChildren s) @ [nextRef s]"
    using assms(1) ra(1)
    by (simp add: replaceWithSkeleton_def new_def installModel_def removeModel_def sceneAdd_def
      sceneRemove_def updObj_def Let_def)
  have struct: "installModel (nextRef s) (removeModel (snd (new (skeletonGroup p) s)))
            = replaceWithSkeleton p s"
    by (simp add: replaceWithSkeleton_def new_def Let_def)
  have dist: "distinct (sceneChildren (replaceWithSkeleton p s))"
    using fin assms(3) ra(3) by simp
  have vis: "\<not> visible (objs (replaceWithSkeleton p s) (nextRef s))"
    by (simp add: replaceWithSkeleton_obj)
  have first: "old \<notin> set (sceneChildren (removeModel (snd (new (skeletonGroup p) s))))
       \<and> nextRef s \<notin> set (sceneChildren (removeModel (snd (new (skeletonGroup p) s))))
       \<and> installModel (nextRef s) (removeModel (snd (new (skeletonGroup p) s)))
            = replaceWithSkeleton p s
       \<and> sceneChildren (replaceWithSkeleton p s) = remove1 old (sceneChildren s) @ [nextRef s]
       \<and> old \<notin> set (sceneChildren (replaceWithSkeleton p s))
       \<and> distinct (sceneChildren (replaceWithSkeleton p s))
       \<and> model (replaceWithSkeleton p s) = Some (nextRef s)
       \<and> nextRef s \<noteq> old
       \<and> \<not> visible (objs (replaceWithSkeleton p s) (nextRef s))"
    using mid fin struct dist vis ne ra(2,3) replaceWithSkeleton_model[of p s] by simp
  have mid2: "sceneChildren (removeModel s) = remove1 old (sceneChildren s)"
    using assms(1) by (simp add: removeModel_def sceneRemove_def)
  have nr2: "nextRef (removeModel s) = nextRef s"
    by (simp add: removeModel_def sceneRemove_def split: option.split)
  have struct2: "installModel (nextRef s) (snd (new (skeletonGroup2 hb bb lb) (removeModel s)))
            = createSkeletonModel hb bb lb w h s"
    by (simp add: createSkeletonModel_def new_def Let_def nr2)
  have fin2: "sceneChildren (createSkeletonModel hb bb lb w h s)
            = remove1 old (sceneChildren s) @ [nextRef s]"
    using assms(1) ra(1)
    by (simp add: createSkeletonModel_def new_def installModel_def removeModel_def sceneAdd_def
      sceneRemove_def updObj_def Let_def)
  have vis2: "\<not> visible (objs (createSkeletonModel hb bb lb w h s) (nextRef s))"
    by (simp add: createSkeletonModel_obj)
  have second: "old \<notin> set (sceneChildren (removeModel s))
       \<and> nextRef s \<notin> set (sceneChildren (removeModel s))
       \<and> installModel (nextRef s) (snd (new (skeletonGroup2 hb bb lb) (removeModel s)))
            = createSkeletonModel hb bb lb w h s
       \<and> sceneChildren (createSkeletonModel hb bb lb w h s)
            = remove1 old (sceneChildren s) @ [nextRef s]
       \<and> model (createSkeletonModel hb bb lb w h s) = Some (nextRef s)
       \<and> \<not> visible (objs (createSkeletonModel hb bb lb w h s) (nextRef s))"
    using mid2 struct2 fin2 vis2 ra(2,3) createSkeletonModel_model[of hb bb lb w h s] by simp
  from first second show ?thesis by (elim conjE) (intro conjI, assumption+)
qed

text \<open>The default box of \<open>boxStart\<close>, reference 2, is replaced by the group 3.\<close>

theorem rig_replaced_in_scene_witness:
  "model boxStart = Some 2 \<and> sceneChildren boxStart = [0, 1, 2]
   \<and> sceneChildren (replaceWithSkeleton
        (boxPartition \<lparr>rect_x = 50, rect_y = 50, rect_width = 300, rect_height = 700\<rparr> 400 800) boxStart)
        = [0, 1, 3]
   \<and> model (replaceWithSkeleton
        (boxPartition \<lparr>rect_x = 50, rect_y = 50, rect_width = 300, rect_height = 700\<rparr> 400 800) boxStart)
        = Some 3
   \<and> \<not> visible (objs (replaceWithSkeleton
        (boxPartition \<lparr>rect_x = 50, rect_y = 50, rect_width = 300, rect_height = 700\<rparr> 400 800) boxStart) 3)"
  using rig_replaced_in_scene[of boxStart 2
      "boxPartition \<lparr>rect_x = 50, rect_y = 50, rect_width = 300, rect_height = 700\<rparr> 400 800"]
  by (simp add: boxStart_eq setupScene_simps)

section \<open>The surface tracker\<close>

text \<open>
  Claim C4. After a frame whose hit test returns zero results the reticle is not
  visible, whatever the state before the frame.
\<close>

theorem no_hit_hides_reticle:
  assumes "getHitTestResults f = Some []"
  shows "reticle (animationLoop (Some f) s) = reticle s
       \<and> \<not> visible (objs (animationLoop (Some f) s) (reticle s))"
  using assms by (simp add: animationLoop_def updObj_def)

text \<open>In \<open>rigTracked\<close> the reticle is visible; a frame without results hides it.\<close>

theorem no_hit_hides_reticle_witness:
  "visible (objs rigTracked (reticle rigTracked))
   \<and> \<not> visible (objs (animationLoop (Some \<lparr>getHitTestResults = Some []\<rparr>) rigTracked)
                     (reticle rigTracked))"
  using no_hit_hides_reticle[of "\<lparr>getHitTestResults = Some []\<rparr>" rigTracked]
  by (simp add: rigTracked_simps)

text \<open>
  Claim C10. A frame whose hit test returns at least one result, the first of which
  resolves to no pose, changes nothing: the visibility and the matrix of the reticle are
  those of the frame before.
\<close>

theorem unresolved_pose_keeps_reticle:
  assumes "getHitTestResults f = Some (r0 # rest)" and "getPose r0 = None"
  shows "animationLoop (Some f) s = s
       \<and> visible (objs (animationLoop (Some f) s) (reticle (animationLoop (Some f) s)))
           = visible (objs s (reticle s))
       \<and> matrix (objs (animationLoop (Some f) s) (reticle (animationLoop (Some f) s)))
           = matrix (objs s (reticle s))"
  using assms by (simp add: animationLoop_def)

text \<open>The reticle of \<open>rigTracked\<close> stays visible at \<open>samplePose\<close>.\<close>

theorem unresolved_pose_keeps_reticle_witness:
  "animationLoop (Some \<lparr>getHitTestResults = Some [Hit None, Hit (Some identity4)]\<rparr>) rigTracked
     = rigTracked
   \<and> visible (objs rigTracked (reticle rigTracked))
   \<and> matrix (objs rigTracked (reticle rigTracked)) = samplePose"
  using unresolved_pose_keeps_reticle
          [of "\<lparr>getHitTestResults = Some [Hit None, Hit (Some identity4)]\<rparr>" "Hit None"
              "[Hit (Some identity4)]" rigTracked]
  by (simp add: rigTracked_simps)

section \<open>Placement\<close>

text \<open>
  Claim C5. A click while the reticle is not visible leaves the whole state unchanged,
  and so the position, rotation, scale and visibility of the model.
\<close>

theorem click_without_reticle_is_noop:
  assumes "\<not> visible (objs s (reticle s))"
  shows "onClick rnd now s = s"
  using assms by (simp add: onClick_def split: option.split)

theorem click_without_reticle_is_noop_witness:
  "\<not> visible (objs rigStart (reticle rigStart)) \<and> onClick (1 / 2) 1000 rigStart = rigStart"
  using click_without_reticle_is_noop[of rigStart "1 / 2" 1000]
  by (simp add: rigStart_simps)

text \<open>
  Claim C6. A click while the reticle is visible, \<open>model\<close> referring to \<open>m\<close> and
  \<open>Math.random()\<close> returning \<open>rnd\<close> in \<open>[0, 1)\<close>: the model is visible; its position is
  elements 12, 13, 14 of the reticle's matrix; the x and z rotation and the matrix of the
  model are unchanged; its yaw is \<open>rnd * pi * 2\<close>, in \<open>[0, 2 pi)\<close>; its scale is 0.001 on
  the three axes; and the tick of \<open>popIn\<close> is queued with \<open>start = now\<close>.
\<close>

theorem click_places_model:
  assumes "visible (objs s (reticle s))" and "model s = Some m" and "0 \<le> rnd" and "rnd < 1"
  shows "visible (objs (onClick rnd now s) m)
       \<and> position (objs (onClick rnd now s) m)
            = vec (matrix (objs s (reticle s)) ! 12) (matrix (objs s (reticle s)) ! 13)
                  (matrix (objs s (reticle s)) ! 14)
       \<and> vx (rotation (objs (onClick rnd now s) m)) = vx (rotation (objs s m))
       \<and> vz (rotation (objs (onClick rnd now s) m)) = vz (rotation (objs s m))
       \<and> matrix (objs (onClick rnd now s) m) = matrix (objs s m)
       \<and> vy (rotation (objs (onClick rnd now s) m)) = rnd * pi * 2
       \<and> 0 \<le> vy (rotation (objs (onClick rnd now s) m))
       \<and> vy (rotation (objs (onClick rnd now s) m)) < 2 * pi
       \<and> scale (objs (onClick rnd now s) m) = vec 0.001 0.001 0.001
       \<and> rafQueue (onClick rnd now s) = rafQueue s @ [Step now m]
       \<and> model (onClick rnd now s) = Some m"
  using assms
  by (simp add: onClick_def updObj_def popIn_def setFromMatrixPosition_def Let_def)

theorem click_places_model_witness:
  "visible (objs (onClick (1 / 2) 1000 rigTracked) 3)
   \<and> position (objs (onClick (1 / 2) 1000 rigTracked) 3) = vec 0.5 0 (- 1.5)
   \<and> vy (rotation (objs (onClick (1 / 2) 1000 rigTracked) 3)) = pi
   \<and> scale (objs (onClick (1 / 2) 1000 rigTracked) 3) = vec 0.001 0.001 0.001
   \<and> rafQueue (onClick (1 / 2) 1000 rigTracked) = [Step 1000 3]"
  using click_places_model[of rigTracked 3 "1 / 2" 1000]
  by (simp add: rigTracked_simps samplePose_def)

text \<open>
  Claim C7. A tick of the animation at time \<open>t\<close>, for a \<open>popIn\<close> started at \<open>start\<close>:
  when \<open>t - start < 220\<close> the scale is \<open>0.001 + (1 - 0.001) * (1 - (1 - (t - start) / 220) ^ 3)\<close>
  on the three axes and the tick is queued again; when \<open>t - start \<ge> 220\<close> the scale is
  1 on the three axes and nothing is queued.
\<close>

theorem pop_in_tick:
  "(t - start < 220 \<longrightarrow>
       scale (objs (step (Step start m) t s) m)
         = vec (0.001 + (1 - 0.001) * (1 - (1 - (t - start) / 220) ^ 3))
               (0.001 + (1 - 0.001) * (1 - (1 - (t - start) / 220) ^ 3))
               (0.001 + (1 - 0.001) * (1 - (1 - (t - start) / 220) ^ 3))
     \<and> rafQueue (step (Step start m) t s) = rafQueue s @ [Step start m])
 \<and> (220 \<le> t - start \<longrightarrow>
       scale (objs (step (Step start m) t s) m) = vec 1 1 1
     \<and> rafQueue (step (Step start m) t s) = rafQueue s)"
  by (simp add: updObj_def dur_def Let_def min_def)

text \<open>Half way (110 ms) the scale is 0.875125; at 220 ms it is 1 and the queue is unchanged.\<close>

theorem pop_in_tick_witness:
  "scale (objs (step (Step 1000 3) 1110 (onClick (1 / 2) 1000 rigTracked)) 3)
     = vec 0.875125 0.875125 0.875125
   \<and> rafQueue (step (Step 1000 3) 1110 (onClick (1 / 2) 1000 rigTracked))
     = rafQueue (onClick (1 / 2) 1000 rigTracked) @ [Step 1000 3]
   \<and> scale (objs (step (Step 1000 3) 1220 (onClick (1 / 2) 1000 rigTracked)) 3) = vec 1 1 1
   \<and> rafQueue (step (Step 1000 3) 1220 (onClick (1 / 2) 1000 rigTracked))
     = rafQueue (onClick (1 / 2) 1000 rigTracked)"
  using pop_in_tick[of 1110 1000 3 "onClick (1 / 2) 1000 rigTracked"]
        pop_in_tick[of 1220 1000 3 "onClick (1 / 2) 1000 rigTracked"]
  by (simp add: power3_eq_cube)

end
